theory Spec2Isabelle
  imports Complex_Main
begin

section \<open>Data model\<close>

text \<open>
  The handlers of \<^verbatim>\<open>src/app.js\<close> work on three tables through an object-relational
  mapper. The table declarations (\<^verbatim>\<open>./model\<close>) are not part of the sources at hand;
  the rows below carry exactly the columns that \<^verbatim>\<open>app.js\<close> reads or writes.
  Money amounts are exact rationals (rounding of the stored numbers is not modelled),
  time stamps are natural numbers (milliseconds).
  A table is the list of its rows, in scan order.
\<close>

datatype profile_type = client | contractor

datatype contract_status = new | in_progress | terminated

text \<open>Modelled from the spec: the Profile table (section 3), with the columns used in app.js.\<close>

record profile =
  profile_id :: nat
  firstName :: string
  lastName :: string
  profession :: string
  balance :: rat
  type :: profile_type

text \<open>Modelled from the spec: the Contract table (section 3), with the columns used in app.js.\<close>

record contract =
  contract_id :: nat
  status :: contract_status
  ClientId :: nat
  ContractorId :: nat

text \<open>Modelled from the spec: the Job table (section 3), with the columns used in app.js.\<close>

record job =
  job_id :: nat
  price :: rat
  paid :: bool
  paymentDate :: "nat option"
  ContractId :: nat

record db =
  Profiles :: "profile list"
  Contracts :: "contract list"
  Jobs :: "job list"

text \<open>
  The errors the handlers answer with, named after the error kinds of the specification.
  \<open>status_code\<close> gives the \<^verbatim>\<open>code\<close> of the thrown object (or the argument of
  \<^verbatim>\<open>res.status(..)\<close>). \<open>Unauthorized\<close> is the answer of the identity
  middleware; \<open>ReloadFailed\<close> stands for an exception of the mapper with no
  \<^verbatim>\<open>code\<close> field, which the \<^verbatim>\<open>catch\<close> block turns into status 500.
\<close>

datatype error =
    Unauthorized
  | Forbidden
  | NotFound
  | InsufficientFunds
  | SettlementInternalError
  | DepositLimitExceeded
  | ReloadFailed

fun status_code :: "error \<Rightarrow> nat" where
  "status_code Unauthorized = 401"
| "status_code Forbidden = 403"
| "status_code NotFound = 404"
| "status_code InsufficientFunds = 409"
| "status_code SettlementInternalError = 500"
| "status_code DepositLimitExceeded = 409"
| "status_code ReloadFailed = 500"

section \<open>The mapper's queries\<close>

text \<open>
  Modelled from the spec: identity resolution (\<^verbatim>\<open>./middleware/getProfile\<close> is not part
  of the sources at hand). It resolves the request's profile id to the row of that profile,
  which the handlers then read as \<^verbatim>\<open>req.profile\<close>.
\<close>

definition getProfile :: "db \<Rightarrow> nat \<Rightarrow> profile option" where
  "getProfile d pid = find (\<lambda>p. profile_id p = pid) (Profiles d)"

text \<open>
  \<^verbatim>\<open>include: [{model: Contract, required: true, include: [{model: Profile, as: 'Client',
  required: true}]}]\<close>: the inner join of Job with its Contract and the contract's client.
\<close>

definition Job_Contract_Client :: "db \<Rightarrow> (job \<times> contract \<times> profile) list" where
  "Job_Contract_Client d =
     [(j, c, p). j \<leftarrow> Jobs d, c \<leftarrow> Contracts d, contract_id c = ContractId j,
                 p \<leftarrow> Profiles d, profile_id p = ClientId c]"

text \<open>The same join with the contract's contractor (\<^verbatim>\<open>as: 'Contractor'\<close>).\<close>

definition Job_Contract_Contractor :: "db \<Rightarrow> (job \<times> contract \<times> profile) list" where
  "Job_Contract_Contractor d =
     [(j, c, p). j \<leftarrow> Jobs d, c \<leftarrow> Contracts d, contract_id c = ContractId j,
                 p \<leftarrow> Profiles d, profile_id p = ContractorId c]"

text \<open>\<^verbatim>\<open>include: [{model: Contract, required: true}]\<close>: Job joined with its Contract only.\<close>

definition Job_Contract :: "db \<Rightarrow> (job \<times> contract) list" where
  "Job_Contract d =
     [(j, c). j \<leftarrow> Jobs d, c \<leftarrow> Contracts d, contract_id c = ContractId j]"

text \<open>
  \<^verbatim>\<open>Profile.decrement({balance: amount}, {where})\<close> and \<^verbatim>\<open>Profile.increment\<close>: one
  UPDATE statement on every row that satisfies the condition. The second component is the
  number of rows affected, which the handler reads as
  \<^verbatim>\<open>const [[, updated]] = await Profile.decrement(..)\<close>.
\<close>

definition Profile_decrement :: "rat \<Rightarrow> (profile \<Rightarrow> bool) \<Rightarrow> db \<Rightarrow> db \<times> nat" where
  "Profile_decrement amount cond d =
     (d\<lparr>Profiles := map (\<lambda>p. if cond p then p\<lparr>balance := balance p - amount\<rparr> else p) (Profiles d)\<rparr>,
      length (filter cond (Profiles d)))"

definition Profile_increment :: "rat \<Rightarrow> (profile \<Rightarrow> bool) \<Rightarrow> db \<Rightarrow> db \<times> nat" where
  "Profile_increment amount cond d =
     (d\<lparr>Profiles := map (\<lambda>p. if cond p then p\<lparr>balance := balance p + amount\<rparr> else p) (Profiles d)\<rparr>,
      length (filter cond (Profiles d)))"

text \<open>
  \<^verbatim>\<open>unpaidJobToPay.paid = true; unpaidJobToPay.paymentDate = new Date();
  await unpaidJobToPay.save()\<close>: the two changed columns are written to the row(s) with the
  job's id. \<^verbatim>\<open>reload\<close> reads the row with that id again.
\<close>

definition Job_save_paid :: "job \<Rightarrow> nat \<Rightarrow> db \<Rightarrow> db" where
  "Job_save_paid j now d =
     d\<lparr>Jobs := map (\<lambda>x. if job_id x = job_id j then x\<lparr>paid := True, paymentDate := Some now\<rparr> else x)
                   (Jobs d)\<rparr>"

definition Job_reload :: "job \<Rightarrow> db \<Rightarrow> job option" where
  "Job_reload j d = find (\<lambda>x. job_id x = job_id j) (Jobs d)"

definition Profile_reload :: "profile \<Rightarrow> db \<Rightarrow> profile option" where
  "Profile_reload p d = find (\<lambda>x. profile_id x = profile_id p) (Profiles d)"

text \<open>
  \<^verbatim>\<open>sequelize.transaction(async (t) => {..})\<close>: the body runs on the state; when it throws,
  the transaction is rolled back and the state is the one before; when it returns, its
  writes are committed.
\<close>

definition transaction :: "(db \<Rightarrow> error + ('a \<times> db)) \<Rightarrow> db \<Rightarrow> (error + 'a) \<times> db" where
  "transaction body d =
     (case body d of
        Inl e \<Rightarrow> (Inl e, d)
      | Inr (r, d') \<Rightarrow> (Inr r, d'))"

section \<open>POST /jobs/:job\_id/pay\<close>

text \<open>
  The \<^verbatim>\<open>Job.findOne\<close> of the handler: the first row of the join with
  \<^verbatim>\<open>Job.id = job_id\<close>, \<^verbatim>\<open>Job.paid\<close> not true, \<^verbatim>\<open>Contract.status = 'in_progress'\<close>,
  \<^verbatim>\<open>Contract.ClientId = profileId\<close> and \<^verbatim>\<open>Client.id = profileId\<close>.
\<close>

definition findUnpaidJobToPay :: "db \<Rightarrow> nat \<Rightarrow> nat \<Rightarrow> (job \<times> contract \<times> profile) option" where
  "findUnpaidJobToPay d profileId jid =
     find (\<lambda>(j, c, cl). job_id j = jid \<and> \<not> paid j \<and> status c = in_progress \<and>
                         ClientId c = profileId \<and> profile_id cl = profileId)
          (Job_Contract_Client d)"

definition payJob_body :: "nat \<Rightarrow> nat \<Rightarrow> nat \<Rightarrow> db \<Rightarrow> error + (job \<times> db)" where
  "payJob_body profileId jid now d =
     (case findUnpaidJobToPay d profileId jid of
        None \<Rightarrow> Inl NotFound
      | Some (unpaidJobToPay, c, cl) \<Rightarrow>
          if balance cl < price unpaidJobToPay then Inl InsufficientFunds
          else
            let (d1, updatedClient) =
                  Profile_decrement (price unpaidJobToPay)
                    (\<lambda>p. profile_id p = ClientId c \<and> price unpaidJobToPay \<le> balance p) d
            in if updatedClient = 0 then Inl InsufficientFunds
            else
              let (d2, updatedContractor) =
                    Profile_increment (price unpaidJobToPay)
                      (\<lambda>p. profile_id p = ContractorId c) d1
              in if updatedContractor = 0 then Inl SettlementInternalError
              else
                let d3 = Job_save_paid unpaidJobToPay now d2
                in (case Job_reload unpaidJobToPay d3 of
                      None \<Rightarrow> Inl ReloadFailed
                    | Some j' \<Rightarrow> Inr (j', d3)))"

text \<open>
  The handler: \<open>req_profile\<close> is \<^verbatim>\<open>req.profile\<close>, \<open>jid\<close> is \<^verbatim>\<open>req.params.job_id\<close>,
  \<open>now\<close> is the value of \<^verbatim>\<open>new Date()\<close>. It answers with the paid job or an error, and
  leaves the committed state.
\<close>

definition payJob :: "db \<Rightarrow> profile \<Rightarrow> nat \<Rightarrow> nat \<Rightarrow> (error + job) \<times> db" where
  "payJob d req_profile jid now =
     (if type req_profile \<noteq> client then (Inl Forbidden, d)
      else transaction (payJob_body (profile_id req_profile) jid now) d)"

section \<open>POST /balances/deposit\<close>

text \<open>
  \<^verbatim>\<open>Job.sum('price', ..)\<close> over the unpaid jobs of the caller's contracts in progress.
  The SQL aggregate SUM over no row is NULL, which the mapper hands back as
  \<^verbatim>\<open>null\<close>: \<open>None\<close> here.
\<close>

definition Job_sum_unpaid :: "db \<Rightarrow> nat \<Rightarrow> rat option" where
  "Job_sum_unpaid d profileId =
     (let rows = filter (\<lambda>(j, c). status c = in_progress \<and> ClientId c = profileId \<and> \<not> paid j)
                        (Job_Contract d)
      in if rows = [] then None else Some (sum_list (map (\<lambda>(j, c). price j) rows)))"

text \<open>\<^verbatim>\<open>unpaidJobsPriceSum / 4\<close>: the division converts \<^verbatim>\<open>null\<close> to the number 0.\<close>

definition quarter :: "rat option \<Rightarrow> rat" where
  "quarter s = (case s of None \<Rightarrow> 0 | Some x \<Rightarrow> x / 4)"

definition deposit_body :: "profile \<Rightarrow> rat \<Rightarrow> db \<Rightarrow> error + (profile \<times> db)" where
  "deposit_body req_profile depositAmount d =
     (let unpaidJobsPriceSum = Job_sum_unpaid d (profile_id req_profile)
      in if depositAmount > quarter unpaidJobsPriceSum then Inl DepositLimitExceeded
         else
           let (d1, n) = Profile_increment depositAmount
                            (\<lambda>p. profile_id p = profile_id req_profile) d
           in (case Profile_reload req_profile d1 of
                 None \<Rightarrow> Inl ReloadFailed
               | Some p' \<Rightarrow> Inr (p', d1)))"

text \<open>
  The handler: \<open>depositAmount\<close> is the value of \<^verbatim>\<open>parseFloat(req.query.amount)\<close> when it
  is a finite number (the amounts of this model are the finite ones).
\<close>

definition deposit :: "db \<Rightarrow> profile \<Rightarrow> rat \<Rightarrow> (error + profile) \<times> db" where
  "deposit d req_profile depositAmount =
     (if type req_profile \<noteq> client then (Inl Forbidden, d)
      else transaction (deposit_body req_profile depositAmount) d)"

section \<open>GET /admin/best-profession and GET /admin/best-clients\<close>

text \<open>A JSON object of a response is the list of its fields, in the order of \<^verbatim>\<open>attributes\<close>.\<close>

datatype json = JString string | JNumber rat

text \<open>
  \<^verbatim>\<open>whereCondition\<close>: \<^verbatim>\<open>paid: true\<close>, and \<^verbatim>\<open>paymentDate >= new Date(start)\<close> when
  \<^verbatim>\<open>start\<close> is given, \<^verbatim>\<open>paymentDate <= new Date(end)\<close> when \<^verbatim>\<open>end\<close> is given.
  A comparison with a missing payment date (NULL) does not hold.
\<close>

definition whereCondition :: "nat option \<Rightarrow> nat option \<Rightarrow> job \<Rightarrow> bool" where
  "whereCondition start end j =
     (paid j \<and>
      (case start of None \<Rightarrow> True
       | Some s \<Rightarrow> (case paymentDate j of None \<Rightarrow> False | Some t \<Rightarrow> s \<le> t)) \<and>
      (case end of None \<Rightarrow> True
       | Some e \<Rightarrow> (case paymentDate j of None \<Rightarrow> False | Some t \<Rightarrow> t \<le> e)))"

text \<open>
  \<^verbatim>\<open>group: col\<close>: one group for each value of the column, here in the order in which the
  values first occur; a group is its first row (where a column that is not aggregated is
  read) together with all its rows. SQL leaves the order of groups open.
\<close>

fun first_rows :: "('r \<Rightarrow> 'k) \<Rightarrow> 'r list \<Rightarrow> 'r list" where
  "first_rows key [] = []"
| "first_rows key (r # rs) = r # first_rows key (filter (\<lambda>x. key x \<noteq> key r) rs)"

definition group_rows :: "('r \<Rightarrow> 'k) \<Rightarrow> 'r list \<Rightarrow> ('r \<times> 'r list) list" where
  "group_rows key rows = map (\<lambda>r. (r, filter (\<lambda>x. key x = key r) rows)) (first_rows key rows)"

definition SUM_price :: "(job \<times> contract \<times> profile) list \<Rightarrow> rat" where
  "SUM_price rs = sum_list (map (\<lambda>(j, c, p). price j) rs)"

text \<open>
  \<^verbatim>\<open>Job.findOne({group: col('Contract.Contractor.profession'),
  order: [[fn('SUM', col('price')), 'DESC']], attributes: [[col(..profession), 'profession']], ..})\<close>:
  the groups are ordered by their sum, largest first, and the first one is taken; the
  object sent has the one attribute \<^verbatim>\<open>profession\<close>.
\<close>

definition best_profession :: "db \<Rightarrow> nat option \<Rightarrow> nat option \<Rightarrow> error + (string \<times> json) list" where
  "best_profession d start end =
     (let rows = filter (\<lambda>(j, c, p). whereCondition start end j) (Job_Contract_Contractor d);
          groups = group_rows (\<lambda>(j, c, p). profession p) rows;
          ordered = sort_key (\<lambda>(r, rs). - SUM_price rs) groups
      in case ordered of
           [] \<Rightarrow> Inl NotFound
         | ((j, c, p), rs) # _ \<Rightarrow> Inr [(''profession'', JString (profession p))])"

text \<open>
  \<^verbatim>\<open>limit: parseInt(limit)\<close> with \<^verbatim>\<open>limit = 2\<close> when the query has none: \<open>LIMIT n\<close> keeps
  the first \<open>n\<close> rows; a negative \<open>n\<close> keeps all of them (SQLite).
\<close>

definition LIMIT :: "int \<Rightarrow> 'a list \<Rightarrow> 'a list" where
  "LIMIT n xs = (if n < 0 then xs else take (nat n) xs)"

text \<open>
  \<^verbatim>\<open>Job.findAll({group: col('Contract.Client.id'), order: [['paid', 'DESC']],
  attributes: [[col('Contract.Client.id'), 'id'], [fn('CONCAT', ..), 'fullName'],
  [fn('SUM', col('price')), 'paid']], .., limit: parseInt(limit)})\<close>.
  The order clause \<^verbatim>\<open>['paid', 'DESC']\<close> names the attribute that the attribute list
  calls \<^verbatim>\<open>paid\<close>, the sum of the prices of the group: the groups are ordered by their
  sum, largest first. SQL leaves the order of groups with equal sums open; here they keep
  the order in which their clients first occur.
  \<^verbatim>\<open>findAll\<close> always yields an array, so the handler's 404 branch is never taken.
\<close>

definition best_clients ::
  "db \<Rightarrow> nat option \<Rightarrow> nat option \<Rightarrow> int option \<Rightarrow> error + (string \<times> json) list list" where
  "best_clients d start end limit =
     (let rows = filter (\<lambda>(j, c, p). whereCondition start end j) (Job_Contract_Client d);
          groups = group_rows (\<lambda>(j, c, p). profile_id p) rows;
          ordered = sort_key (\<lambda>(r, rs). - SUM_price rs) groups;
          topClients = LIMIT (case limit of None \<Rightarrow> 2 | Some n \<Rightarrow> n) ordered
      in Inr (map (\<lambda>((j, c, p), rs).
                [(''id'', JNumber (of_nat (profile_id p))),
                 (''fullName'', JString (firstName p @ '' '' @ lastName p)),
                 (''paid'', JNumber (SUM_price rs))])
              topClients))"

section \<open>Derived notions used in the statements\<close>

text \<open>The balance of the profile with a given id, as a lookup by primary key.\<close>

definition balance_of :: "db \<Rightarrow> nat \<Rightarrow> rat option" where
  "balance_of d pid = map_option balance (getProfile d pid)"

text \<open>
  The state in which a payment is settled: the client's guarded decrement, the
  contractor's increment and the job's paid mark, all three applied.
\<close>

definition paid_state :: "job \<Rightarrow> contract \<Rightarrow> nat \<Rightarrow> db \<Rightarrow> db" where
  "paid_state j c now d =
     Job_save_paid j now
       (fst (Profile_increment (price j) (\<lambda>p. profile_id p = ContractorId c)
          (fst (Profile_decrement (price j) (\<lambda>p. profile_id p = ClientId c \<and> price j \<le> balance p) d))))"

text \<open>
  A job that a client can pay, in the words of the specification: a job with the given
  id that is unpaid and belongs to a contract in progress whose client is the caller.
\<close>

definition payable :: "db \<Rightarrow> nat \<Rightarrow> nat \<Rightarrow> bool" where
  "payable d profileId jid =
     list_ex (\<lambda>j. job_id j = jid \<and> \<not> paid j \<and>
        list_ex (\<lambda>c. contract_id c = ContractId j \<and> status c = in_progress \<and> ClientId c = profileId)
          (Contracts d)) (Jobs d)"

text \<open>
  The caller's exposure, in the words of the specification: the sum of the prices of the
  jobs that are unpaid and whose contract belongs to the caller and is in progress (the
  empty sum is 0).
\<close>

definition exposure :: "db \<Rightarrow> nat \<Rightarrow> rat" where
  "exposure d profileId =
     sum_list (map price
       (filter (\<lambda>j. \<not> paid j \<and>
           list_ex (\<lambda>c. contract_id c = ContractId j \<and> status c = in_progress \<and> ClientId c = profileId)
             (Contracts d))
          (Jobs d)))"

text \<open>
  Requests that change balances, as they arrive: the identity middleware resolves the
  profile id of the request against the current state (an unknown id is answered with
  401 and changes nothing), then the handler runs. \<open>handle\<close> gives the committed state.
\<close>

datatype request = PayJob nat nat nat | Deposit nat rat

definition handle :: "db \<Rightarrow> request \<Rightarrow> db" where
  "handle d r =
     (case r of
        PayJob pid jid now \<Rightarrow>
          (case getProfile d pid of None \<Rightarrow> d | Some p \<Rightarrow> snd (payJob d p jid now))
      | Deposit pid amount \<Rightarrow>
          (case getProfile d pid of None \<Rightarrow> d | Some p \<Rightarrow> snd (deposit d p amount)))"

definition balances_nonneg :: "db \<Rightarrow> bool" where
  "balances_nonneg d = list_all (\<lambda>p. 0 \<le> balance p) (Profiles d)"

definition prices_nonneg :: "db \<Rightarrow> bool" where
  "prices_nonneg d = list_all (\<lambda>j. 0 \<le> price j) (Jobs d)"

fun nonneg_amount :: "request \<Rightarrow> bool" where
  "nonneg_amount (PayJob pid jid now) = True"
| "nonneg_amount (Deposit pid amount) = (0 \<le> amount)"

text \<open>
  The rows the best-profession query ranges over (the paid jobs in the date range, each
  with its contract and the contract's contractor), and the total paid to a profession.
\<close>

definition paid_rows :: "db \<Rightarrow> nat option \<Rightarrow> nat option \<Rightarrow> (job \<times> contract \<times> profile) list" where
  "paid_rows d start end =
     filter (\<lambda>(j, c, p). whereCondition start end j) (Job_Contract_Contractor d)"

definition total_paid :: "db \<Rightarrow> nat option \<Rightarrow> nat option \<Rightarrow> string \<Rightarrow> rat" where
  "total_paid d start end prof =
     SUM_price (filter (\<lambda>(j, c, p). profession p = prof) (paid_rows d start end))"




section \<open>An example database\<close>

text \<open>
  Two clients, two contractors with professions A and B, one contract in progress for
  each client, two paid jobs (X paid 200 to A, Y paid 300 to B) and one unpaid job of 100
  under X's contract. \<open>orphan_db\<close> is the same without the contractors' rows;
  \<open>paid_db\<close> is the example after X has paid job 3 at time 99.
\<close>

definition client_X :: profile where
  "client_X = \<lparr>profile_id = 1, firstName = ''X'', lastName = ''Client'', profession = ''none'',
                balance = 500, type = client\<rparr>"

definition client_Y :: profile where
  "client_Y = \<lparr>profile_id = 2, firstName = ''Y'', lastName = ''Client'', profession = ''none'',
                balance = 50, type = client\<rparr>"

definition contractor_A :: profile where
  "contractor_A = \<lparr>profile_id = 3, firstName = ''A'', lastName = ''Worker'', profession = ''A'',
                    balance = 0, type = contractor\<rparr>"

definition contractor_B :: profile where
  "contractor_B = \<lparr>profile_id = 4, firstName = ''B'', lastName = ''Worker'', profession = ''B'',
                    balance = 0, type = contractor\<rparr>"

definition contract_1 :: contract where
  "contract_1 = \<lparr>contract_id = 1, status = in_progress, ClientId = 1, ContractorId = 3\<rparr>"

definition contract_2 :: contract where
  "contract_2 = \<lparr>contract_id = 2, status = in_progress, ClientId = 2, ContractorId = 4\<rparr>"

definition job_1 :: job where
  "job_1 = \<lparr>job_id = 1, price = 200, paid = True, paymentDate = Some 10, ContractId = 1\<rparr>"

definition job_2 :: job where
  "job_2 = \<lparr>job_id = 2, price = 300, paid = True, paymentDate = Some 20, ContractId = 2\<rparr>"

definition job_3 :: job where
  "job_3 = \<lparr>job_id = 3, price = 100, paid = False, paymentDate = None, ContractId = 1\<rparr>"

definition example_db :: db where
  "example_db = \<lparr>Profiles = [client_X, client_Y, contractor_A, contractor_B],
                  Contracts = [contract_1, contract_2], Jobs = [job_1, job_2, job_3]\<rparr>"

definition orphan_db :: db where
  "orphan_db = \<lparr>Profiles = [client_X, client_Y],
                 Contracts = [contract_1, contract_2], Jobs = [job_1, job_2, job_3]\<rparr>"

definition paid_db :: db where
  "paid_db = \<lparr>Profiles = [client_X\<lparr>balance := 400\<rparr>, client_Y, contractor_A\<lparr>balance := 100\<rparr>, contractor_B],
               Contracts = [contract_1, contract_2],
               Jobs = [job_1, job_2, job_3\<lparr>paid := True, paymentDate := Some 99\<rparr>]\<rparr>"


section \<open>Lemmas on the queries\<close>

lemmas example_defs = client_X_def client_Y_def contractor_A_def contractor_B_def
  contract_1_def contract_2_def job_1_def job_2_def job_3_def example_db_def orphan_db_def

lemmas query_defs = getProfile_def Job_Contract_Client_def Job_Contract_Contractor_def
  Job_Contract_def Profile_decrement_def Profile_increment_def Job_save_paid_def
  Job_reload_def Profile_reload_def transaction_def findUnpaidJobToPay_def payJob_body_def
  payJob_def Job_sum_unpaid_def quarter_def deposit_body_def deposit_def

lemmas aggregate_defs = best_profession_def best_clients_def LIMIT_def group_rows_def
  SUM_price_def whereCondition_def paid_rows_def total_paid_def


lemma find_map_key:
  assumes "\<And>x. key (f x) = key x"
  shows "find (\<lambda>x. key x = k) (map f xs) = map_option f (find (\<lambda>x. key x = k) xs)"
  using assms by (induction xs) auto

lemma find_distinct_key:
  assumes "distinct (map key xs)" and "x \<in> set xs"
  shows "find (\<lambda>y. key y = key x) xs = Some x"
  using assms by (induction xs) force+

lemma in_Job_Contract_Client:
  "(j, c, p) \<in> set (Job_Contract_Client d) \<longleftrightarrow>
     j \<in> set (Jobs d) \<and> c \<in> set (Contracts d) \<and> contract_id c = ContractId j \<and>
     p \<in> set (Profiles d) \<and> profile_id p = ClientId c"
  by (auto simp: Job_Contract_Client_def)

lemma findUnpaidJobToPay_Some:
  assumes "findUnpaidJobToPay d pid jid = Some (j, c, cl)"
  shows "j \<in> set (Jobs d) \<and> c \<in> set (Contracts d) \<and> cl \<in> set (Profiles d) \<and>
         contract_id c = ContractId j \<and> profile_id cl = ClientId c \<and>
         job_id j = jid \<and> \<not> paid j \<and> status c = in_progress \<and> ClientId c = pid"
proof -
  from assms have "(j, c, cl) \<in> set (Job_Contract_Client d)"
    and "job_id j = jid \<and> \<not> paid j \<and> status c = in_progress \<and> ClientId c = pid"
    unfolding findUnpaidJobToPay_def by (auto simp: find_Some_iff in_set_conv_nth)
  then show ?thesis by (simp add: in_Job_Contract_Client)
qed

lemma findUnpaidJobToPay_None:
  "findUnpaidJobToPay d pid jid = None \<longleftrightarrow>
     \<not> (\<exists>j c cl. (j, c, cl) \<in> set (Job_Contract_Client d) \<and> job_id j = jid \<and> \<not> paid j \<and>
          status c = in_progress \<and> ClientId c = pid \<and> profile_id cl = pid)"
  unfolding findUnpaidJobToPay_def by (auto simp: find_None_iff)

lemma payJob_body_Inr:
  assumes "payJob_body pid jid now d = Inr (j', d')"
  shows "\<exists>j c cl. findUnpaidJobToPay d pid jid = Some (j, c, cl) \<and> price j \<le> balance cl \<and>
           (\<exists>q \<in> set (Profiles d). profile_id q = ContractorId c) \<and>
           d' = paid_state j c now d \<and> Job_reload j d' = Some j'"
  using assms
  unfolding payJob_body_def paid_state_def Profile_decrement_def Profile_increment_def
  by (auto simp: Let_def filter_empty_conv split: option.splits if_splits prod.splits)

lemma payJob_Inl:
  "payJob d p jid now = (Inl e, d') \<Longrightarrow> d' = d"
  unfolding payJob_def transaction_def
  by (auto split: if_splits sum.splits prod.splits)

lemma Profiles_paid_state:
  "Profiles (paid_state j c now d) =
     map (\<lambda>p. if profile_id p = ContractorId c then p\<lparr>balance := balance p + price j\<rparr> else p)
       (map (\<lambda>p. if profile_id p = ClientId c \<and> price j \<le> balance p
                   then p\<lparr>balance := balance p - price j\<rparr> else p) (Profiles d))"
  by (simp add: paid_state_def Job_save_paid_def Profile_increment_def Profile_decrement_def)

lemma Jobs_paid_state:
  "Jobs (paid_state j c now d) =
     map (\<lambda>x. if job_id x = job_id j then x\<lparr>paid := True, paymentDate := Some now\<rparr> else x) (Jobs d)"
  by (simp add: paid_state_def Job_save_paid_def Profile_increment_def Profile_decrement_def)

lemma Contracts_paid_state: "Contracts (paid_state j c now d) = Contracts d"
  by (simp add: paid_state_def Job_save_paid_def Profile_increment_def Profile_decrement_def)

lemma getProfile_paid_state:
  "getProfile (paid_state j c now d) k =
     map_option
       ((\<lambda>p. if profile_id p = ContractorId c then p\<lparr>balance := balance p + price j\<rparr> else p) \<circ>
        (\<lambda>p. if profile_id p = ClientId c \<and> price j \<le> balance p
              then p\<lparr>balance := balance p - price j\<rparr> else p))
       (getProfile d k)"
  unfolding getProfile_def Profiles_paid_state map_map [symmetric]
  by (subst find_map_key [where key = profile_id], simp)+ (simp add: option.map_comp)

lemma paid_state_all_paid:
  assumes "x \<in> set (Jobs (paid_state j c now d))" and "job_id x = job_id j"
  shows "paid x"
  using assms unfolding Jobs_paid_state by (auto split: if_splits)

lemma payJob_again_NotFound:
  assumes "payJob d p jid now = (Inr j', d')"
  shows "payJob d' p jid now' = (Inl NotFound, d')"
proof -
  from assms have cl: "type p = client"
    and body: "payJob_body (profile_id p) jid now d = Inr (j', d')"
    unfolding payJob_def transaction_def by (auto split: if_splits sum.splits prod.splits)
  from payJob_body_Inr [OF body] obtain j c cl where
    f: "findUnpaidJobToPay d (profile_id p) jid = Some (j, c, cl)" and d': "d' = paid_state j c now d"
    by blast
  from findUnpaidJobToPay_Some [OF f] have jid: "job_id j = jid" by simp
  have "findUnpaidJobToPay d' (profile_id p) jid = None"
    unfolding findUnpaidJobToPay_None
    using paid_state_all_paid [of _ j c now d] jid d' by (auto simp: in_Job_Contract_Client)
  then show ?thesis
    using cl by (simp add: payJob_def transaction_def payJob_body_def)
qed

lemma payJob_cases:
  "snd (payJob d p jid now) = d \<or>
   (\<exists>j c cl. findUnpaidJobToPay d (profile_id p) jid = Some (j, c, cl) \<and>
      snd (payJob d p jid now) = paid_state j c now d)"
proof (cases "payJob d p jid now")
  case (Pair r d')
  show ?thesis
  proof (cases r)
    case (Inl e)
    with Pair payJob_Inl [of d p jid now e d'] show ?thesis by simp
  next
    case (Inr j')
    with Pair have "payJob_body (profile_id p) jid now d = Inr (j', d')"
      unfolding payJob_def transaction_def by (auto split: if_splits sum.splits prod.splits)
    from payJob_body_Inr [OF this] Pair show ?thesis by auto
  qed
qed

lemma payJob_preserves:
  assumes "balances_nonneg d" and "prices_nonneg d"
  shows "balances_nonneg (snd (payJob d p jid now)) \<and> prices_nonneg (snd (payJob d p jid now))"
proof -
  from payJob_cases [of d p jid now] show ?thesis
  proof
    assume "snd (payJob d p jid now) = d"
    with assms show ?thesis by simp
  next
    assume "\<exists>j c cl. findUnpaidJobToPay d (profile_id p) jid = Some (j, c, cl) \<and>
      snd (payJob d p jid now) = paid_state j c now d"
    then obtain j c cl where f: "findUnpaidJobToPay d (profile_id p) jid = Some (j, c, cl)"
      and s: "snd (payJob d p jid now) = paid_state j c now d" by blast
    from findUnpaidJobToPay_Some [OF f] assms(2) have pr: "0 \<le> price j"
      by (auto simp: prices_nonneg_def list_all_iff)
    have "balances_nonneg (paid_state j c now d)"
      using assms(1) pr unfolding balances_nonneg_def Profiles_paid_state list_all_iff
      by auto
    moreover have "prices_nonneg (paid_state j c now d)"
      using assms(2) unfolding prices_nonneg_def Jobs_paid_state list_all_iff
      by auto
    ultimately show ?thesis using s by simp
  qed
qed

lemma deposit_state:
  "snd (deposit d p amount) = d \<or>
   snd (deposit d p amount) =
     d\<lparr>Profiles := map (\<lambda>x. if profile_id x = profile_id p then x\<lparr>balance := balance x + amount\<rparr> else x)
                       (Profiles d)\<rparr>"
  unfolding deposit_def transaction_def deposit_body_def Profile_increment_def
  by (auto simp: Let_def split: option.splits)

lemma deposit_preserves:
  assumes "balances_nonneg d" and "prices_nonneg d" and "0 \<le> amount"
  shows "balances_nonneg (snd (deposit d p amount)) \<and> prices_nonneg (snd (deposit d p amount))"
  using deposit_state [of d p amount] assms
  unfolding balances_nonneg_def prices_nonneg_def list_all_iff by auto

lemma handle_preserves:
  assumes "balances_nonneg d" and "prices_nonneg d" and "nonneg_amount r"
  shows "balances_nonneg (handle d r) \<and> prices_nonneg (handle d r)"
proof (cases r)
  case (PayJob pid jid now)
  with assms payJob_preserves show ?thesis
    by (auto simp: handle_def split: option.splits)
next
  case (Deposit pid amount)
  with assms deposit_preserves show ?thesis
    by (auto simp: handle_def split: option.splits)
qed

lemma filter_key_distinct:
  assumes "distinct (map key cs)"
  shows "filter (\<lambda>c. key c = k) cs = (case find (\<lambda>c. key c = k) cs of None \<Rightarrow> [] | Some c \<Rightarrow> [c])"
  using assms
proof (induction cs)
  case Nil
  show ?case by simp
next
  case (Cons c cs)
  show ?case
  proof (cases "key c = k")
    case True
    with Cons.prems have "filter (\<lambda>c. key c = k) cs = []"
      by (force simp: filter_empty_conv image_iff)
    with True show ?thesis by simp
  next
    case False
    with Cons show ?thesis by simp
  qed
qed

lemma Job_Contract_eq:
  "Job_Contract d =
     concat (map (\<lambda>j. map (Pair j) (filter (\<lambda>c. contract_id c = ContractId j) (Contracts d))) (Jobs d))"
proof -
  have "concat (map (\<lambda>c. if contract_id c = k then [(j, c)] else []) cs) =
      map (Pair j) (filter (\<lambda>c. contract_id c = k) cs)" for k and j :: job and cs :: "contract list"
    by (induction cs) simp_all
  then show ?thesis by (simp add: Job_Contract_def)
qed

lemma join_sum_exposure:
  fixes cs :: "contract list" and js :: "job list"
  assumes "distinct (map contract_id cs)"
  shows "sum_list (map (\<lambda>(j, c). price j)
           (filter (\<lambda>(j, c). status c = in_progress \<and> ClientId c = pid \<and> \<not> paid j)
              (concat (map (\<lambda>j. map (Pair j) (filter (\<lambda>c. contract_id c = ContractId j) cs)) js)))) =
         sum_list (map price
           (filter (\<lambda>j. \<not> paid j \<and>
               list_ex (\<lambda>c. contract_id c = ContractId j \<and> status c = in_progress \<and> ClientId c = pid) cs)
              js))"
proof -
  define g where "g = (\<lambda>j :: job. map (Pair j) (filter (\<lambda>c. contract_id c = ContractId j) cs))"
  define P where "P = (\<lambda>(j :: job, c :: contract). status c = in_progress \<and> ClientId c = pid \<and> \<not> paid j)"
  define Q where "Q = (\<lambda>j :: job. \<not> paid j \<and>
      list_ex (\<lambda>c. contract_id c = ContractId j \<and> status c = in_progress \<and> ClientId c = pid) cs)"
  define f where "f = (\<lambda>(j :: job, c :: contract). price j)"
  have one: "sum_list (map f (filter P (g j))) = (if Q j then price j else 0)" for j
  proof (cases "find (\<lambda>c. contract_id c = ContractId j) cs")
    case None
    then have "filter (\<lambda>c. contract_id c = ContractId j) cs = []"
      by (simp add: filter_key_distinct [OF assms])
    then have "g j = []" by (simp add: g_def)
    moreover from None have "\<not> Q j"
      by (auto simp: Q_def find_None_iff list_ex_iff)
    ultimately show ?thesis by simp
  next
    case (Some c)
    then have c: "c \<in> set cs" "contract_id c = ContractId j"
      by (auto simp: find_Some_iff)
    have F: "filter (\<lambda>c. contract_id c = ContractId j) cs = [c]"
      using Some by (simp add: filter_key_distinct [OF assms])
    have only: "c' = c" if "c' \<in> set cs" "contract_id c' = ContractId j" for c'
    proof -
      from that have "c' \<in> set (filter (\<lambda>c. contract_id c = ContractId j) cs)" by simp
      then show ?thesis unfolding F by simp
    qed
    have "(\<exists>c' \<in> set cs. contract_id c' = ContractId j \<and> status c' = in_progress \<and> ClientId c' = pid) =
        (status c = in_progress \<and> ClientId c = pid)"
    proof
      assume "\<exists>c' \<in> set cs. contract_id c' = ContractId j \<and> status c' = in_progress \<and> ClientId c' = pid"
      then obtain c' where c': "c' \<in> set cs" "contract_id c' = ContractId j"
        "status c' = in_progress \<and> ClientId c' = pid" by blast
      from only [OF c'(1,2)] c'(3) show "status c = in_progress \<and> ClientId c = pid" by simp
    next
      assume "status c = in_progress \<and> ClientId c = pid"
      with c show "\<exists>c' \<in> set cs. contract_id c' = ContractId j \<and> status c' = in_progress \<and> ClientId c' = pid"
        by blast
    qed
    then have "Q j = P (j, c)"
      unfolding Q_def P_def list_ex_iff by auto
    moreover have "g j = [(j, c)]" by (simp add: g_def F)
    moreover have "f (j, c) = price j" by (simp add: f_def)
    ultimately show ?thesis by simp
  qed
  have "sum_list (map f (filter P (concat (map g js)))) = sum_list (map price (filter Q js))"
  proof (induction js)
    case Nil
    show ?case by simp
  next
    case (Cons j js)
    have "sum_list (map f (filter P (concat (map g (j # js))))) =
        sum_list (map f (filter P (g j))) + sum_list (map f (filter P (concat (map g js))))"
      by simp
    also have "\<dots> = (if Q j then price j else 0) + sum_list (map price (filter Q js))"
      unfolding one Cons.IH ..
    also have "\<dots> = sum_list (map price (filter Q (j # js)))"
      by simp
    finally show ?case .
  qed
  then show ?thesis unfolding g_def P_def Q_def f_def .
qed

lemma quarter_exposure:
  assumes "distinct (map contract_id (Contracts d))"
  shows "quarter (Job_sum_unpaid d pid) = exposure d pid / 4"
proof -
  let ?rows = "filter (\<lambda>(j, c). status c = in_progress \<and> ClientId c = pid \<and> \<not> paid j) (Job_Contract d)"
  have s: "sum_list (map (\<lambda>(j, c). price j) ?rows) = exposure d pid"
    unfolding Job_Contract_eq exposure_def by (rule join_sum_exposure [OF assms])
  show ?thesis
  proof (cases "?rows = []")
    case True
    from s have "exposure d pid = 0" unfolding True by simp
    moreover have "Job_sum_unpaid d pid = None"
      unfolding Job_sum_unpaid_def Let_def True by simp
    ultimately show ?thesis by (simp add: quarter_def)
  next
    case False
    then have "Job_sum_unpaid d pid = Some (sum_list (map (\<lambda>(j, c). price j) ?rows))"
      unfolding Job_sum_unpaid_def Let_def by (rule if_not_P)
    then show ?thesis unfolding s by (simp add: quarter_def)
  qed
qed

lemma getProfile_increment:
  "getProfile (fst (Profile_increment amount (\<lambda>x. profile_id x = k) d)) k' =
     map_option (\<lambda>x. if profile_id x = k then x\<lparr>balance := balance x + amount\<rparr> else x) (getProfile d k')"
  unfolding getProfile_def Profile_increment_def
  by (simp, subst find_map_key [where key = profile_id]) simp_all

lemma deposit_accept:
  assumes "distinct (map contract_id (Contracts d))"
    and "type p = client" and "getProfile d (profile_id p) = Some p"
    and "amount \<le> exposure d (profile_id p) / 4"
  shows "deposit d p amount =
      (Inr (p\<lparr>balance := balance p + amount\<rparr>),
       fst (Profile_increment amount (\<lambda>x. profile_id x = profile_id p) d))"
proof -
  have "Profile_reload p (fst (Profile_increment amount (\<lambda>x. profile_id x = profile_id p) d)) =
      Some (p\<lparr>balance := balance p + amount\<rparr>)"
    using getProfile_increment [of amount "profile_id p" d "profile_id p"] assms(3)
    by (simp add: Profile_reload_def getProfile_def)
  then show ?thesis
    using assms(2,4)
    by (simp add: deposit_def transaction_def deposit_body_def quarter_exposure [OF assms(1)]
        Let_def case_prod_beta)
qed

lemma deposit_reject:
  assumes "distinct (map contract_id (Contracts d))"
    and "type p = client" and "exposure d (profile_id p) / 4 < amount"
  shows "deposit d p amount = (Inl DepositLimitExceeded, d)"
  using assms(2,3)
  by (simp add: deposit_def transaction_def deposit_body_def quarter_exposure [OF assms(1)] Let_def)











lemma decrement_hits:
  assumes "cl \<in> set (Profiles d)" and "profile_id cl = k" and "amount \<le> balance cl"
  shows "snd (Profile_decrement amount (\<lambda>p. profile_id p = k \<and> amount \<le> balance p) d) \<noteq> 0"
proof -
  from assms have "cl \<in> set (filter (\<lambda>p. profile_id p = k \<and> amount \<le> balance p) (Profiles d))"
    by simp
  then have "filter (\<lambda>p. profile_id p = k \<and> amount \<le> balance p) (Profiles d) \<noteq> []"
    by (metis empty_iff list.set(1))
  then show ?thesis by (simp add: Profile_decrement_def)
qed

lemma increment_misses:
  "(snd (Profile_increment amount (\<lambda>p. profile_id p = k)
       (fst (Profile_decrement amount' cond d))) = 0) =
   list_all (\<lambda>q. profile_id q \<noteq> k) (Profiles d)"
proof -
  have "Profiles (fst (Profile_decrement amount' cond d)) =
      map (\<lambda>p. if cond p then p\<lparr>balance := balance p - amount'\<rparr> else p) (Profiles d)"
    by (simp add: Profile_decrement_def)
  then have "filter (\<lambda>p. profile_id p = k) (Profiles (fst (Profile_decrement amount' cond d))) =
      map (\<lambda>p. if cond p then p\<lparr>balance := balance p - amount'\<rparr> else p)
        (filter (\<lambda>p. profile_id p = k) (Profiles d))"
    by (simp add: filter_map comp_def if_distrib [of profile_id] cong: if_cong)
  then have "(snd (Profile_increment amount (\<lambda>p. profile_id p = k)
       (fst (Profile_decrement amount' cond d))) = 0) =
      (filter (\<lambda>p. profile_id p = k) (Profiles d) = [])"
    by (simp add: Profile_increment_def)
  also have "\<dots> = list_all (\<lambda>q. profile_id q \<noteq> k) (Profiles d)"
    by (simp add: filter_empty_conv list_all_iff)
  finally show ?thesis .
qed

lemma reload_after_save:
  assumes "j \<in> set (Jobs d)"
  shows "\<exists>j'. Job_reload j (Job_save_paid j now d) = Some j'"
proof -
  have "Job_reload j (Job_save_paid j now d) =
      map_option (\<lambda>x. if job_id x = job_id j then x\<lparr>paid := True, paymentDate := Some now\<rparr> else x)
        (find (\<lambda>x. job_id x = job_id j) (Jobs d))"
    unfolding Job_reload_def Job_save_paid_def
    by (simp, subst find_map_key [where key = job_id]) simp_all
  moreover from assms have "find (\<lambda>x. job_id x = job_id j) (Jobs d) \<noteq> None"
    by (auto simp: find_None_iff)
  ultimately show ?thesis by auto
qed

lemma payJob_body_found:
  assumes "findUnpaidJobToPay d pid jid = Some (j, c, cl)"
  shows "payJob_body pid jid now d =
     (if balance cl < price j then Inl InsufficientFunds
      else if snd (Profile_decrement (price j)
                (\<lambda>p. profile_id p = ClientId c \<and> price j \<le> balance p) d) = 0
      then Inl InsufficientFunds
      else if snd (Profile_increment (price j) (\<lambda>p. profile_id p = ContractorId c)
                (fst (Profile_decrement (price j)
                   (\<lambda>p. profile_id p = ClientId c \<and> price j \<le> balance p) d))) = 0
      then Inl SettlementInternalError
      else case Job_reload j (paid_state j c now d) of
             None \<Rightarrow> Inl ReloadFailed
           | Some j' \<Rightarrow> Inr (j', paid_state j c now d))"
  unfolding payJob_body_def paid_state_def assms
  by (simp add: case_prod_beta Let_def)

lemma payJob_body_Inl:
  assumes "payJob_body pid jid now d = Inl e"
  shows "e = NotFound \<and> findUnpaidJobToPay d pid jid = None \<or>
         (\<exists>j c cl. findUnpaidJobToPay d pid jid = Some (j, c, cl) \<and>
            (e = InsufficientFunds \<and> balance cl < price j \<or>
             e = SettlementInternalError \<and> price j \<le> balance cl \<and>
               list_all (\<lambda>q. profile_id q \<noteq> ContractorId c) (Profiles d)))"
proof (cases "findUnpaidJobToPay d pid jid")
  case None
  with assms show ?thesis by (simp add: payJob_body_def)
next
  case (Some row)
  obtain j c cl where row: "row = (j, c, cl)" by (metis prod.exhaust)
  from Some row have f: "findUnpaidJobToPay d pid jid = Some (j, c, cl)" by simp
  note F = findUnpaidJobToPay_Some [OF f]
  note body = payJob_body_found [OF f, of now]
  show ?thesis
  proof (cases "balance cl < price j")
    case True
    with assms body have "e = InsufficientFunds" by simp
    with True f show ?thesis by blast
  next
    case False
    then have enough: "price j \<le> balance cl" by simp
    from F have "cl \<in> set (Profiles d)" "profile_id cl = ClientId c" by simp_all
    from decrement_hits [OF this enough]
    have n1: "snd (Profile_decrement (price j)
        (\<lambda>p. profile_id p = ClientId c \<and> price j \<le> balance p) d) \<noteq> 0" .
    show ?thesis
    proof (cases "list_all (\<lambda>q. profile_id q \<noteq> ContractorId c) (Profiles d)")
      case True
      with assms body False n1 have "e = SettlementInternalError"
        by (simp add: increment_misses)
      with True enough f show ?thesis by blast
    next
      case miss: False
      have "Jobs (fst (Profile_increment (price j) (\<lambda>p. profile_id p = ContractorId c)
          (fst (Profile_decrement (price j)
             (\<lambda>p. profile_id p = ClientId c \<and> price j \<le> balance p) d)))) = Jobs d"
        by (simp add: Profile_increment_def Profile_decrement_def)
      with F have "j \<in> set (Jobs (fst (Profile_increment (price j) (\<lambda>p. profile_id p = ContractorId c)
          (fst (Profile_decrement (price j)
             (\<lambda>p. profile_id p = ClientId c \<and> price j \<le> balance p) d)))))"
        by simp
      from reload_after_save [OF this, of now] obtain j' where
        "Job_reload j (paid_state j c now d) = Some j'"
        unfolding paid_state_def by blast
      with body False n1 miss have "payJob_body pid jid now d = Inr (j', paid_state j c now d)"
        by (simp add: increment_misses)
      with assms show ?thesis by simp
    qed
  qed
qed

lemma paid_state_balance_of:
  assumes pk: "distinct (map profile_id (Profiles d))"
    and cl: "cl \<in> set (Profiles d)" "profile_id cl = ClientId c" "price j \<le> balance cl"
    and q: "q \<in> set (Profiles d)" "profile_id q = ContractorId c"
    and ne: "ClientId c \<noteq> ContractorId c"
  shows "balance_of d (ClientId c) = Some (balance cl) \<and>
         balance_of d (ContractorId c) = Some (balance q) \<and>
         balance_of (paid_state j c now d) (ClientId c) = Some (balance cl - price j) \<and>
         balance_of (paid_state j c now d) (ContractorId c) = Some (balance q + price j)"
proof -
  have gcl: "getProfile d (ClientId c) = Some cl"
    using find_distinct_key [OF pk, of cl] cl(1,2) by (simp add: getProfile_def)
  have gq: "getProfile d (ContractorId c) = Some q"
    using find_distinct_key [OF pk, of q] q by (simp add: getProfile_def)
  have b1: "balance_of (paid_state j c now d) (ClientId c) = Some (balance cl - price j)"
    using gcl cl(2,3) ne by (simp add: balance_of_def getProfile_paid_state)
  have b2: "balance_of (paid_state j c now d) (ContractorId c) = Some (balance q + price j)"
    using gq ne q by (simp add: balance_of_def getProfile_paid_state)
  have b0: "balance_of d (ClientId c) = Some (balance cl)"
    "balance_of d (ContractorId c) = Some (balance q)"
    using gcl gq by (simp_all add: balance_of_def)
  from b0 b1 b2 show ?thesis by (intro conjI)
qed



section \<open>The claims\<close>

subsection \<open>Settlement\<close>

text \<open>
  Claim C1. When a client's call to pay job \<open>jid\<close> succeeds, the job \<open>j\<close> found was unpaid,
  the client's balance afterwards is the balance before minus the price of \<open>j\<close>, the
  contractor's balance afterwards is the balance before plus the price, the job returned
  is \<open>j\<close> with \<open>paid\<close> set and \<open>paymentDate\<close> set to the time of the call, and a second call for
  the same job fails with \<open>NotFound\<close>: the flag goes from false to true exactly once.
  The ids are the primary keys of their tables, and a contract's client and contractor are
  two different profiles (a profile has one role).
\<close>

theorem payJob_success:
  assumes ok: "payJob d req_profile jid now = (Inr j', d')"
    and pk: "distinct (map profile_id (Profiles d))"
    and jk: "distinct (map job_id (Jobs d))"
    and roles: "list_all (\<lambda>c. ClientId c \<noteq> ContractorId c) (Contracts d)"
  shows "\<exists>j c clientBalance contractorBalance.
      j \<in> set (Jobs d) \<and> job_id j = jid \<and> \<not> paid j \<and>
      c \<in> set (Contracts d) \<and> contract_id c = ContractId j \<and> ClientId c = profile_id req_profile \<and>
      balance_of d (ClientId c) = Some clientBalance \<and>
      balance_of d (ContractorId c) = Some contractorBalance \<and>
      balance_of d' (ClientId c) = Some (clientBalance - price j) \<and>
      balance_of d' (ContractorId c) = Some (contractorBalance + price j) \<and>
      j' = j\<lparr>paid := True, paymentDate := Some now\<rparr> \<and>
      Job_reload j d' = Some j' \<and>
      payJob d' req_profile jid now' = (Inl NotFound, d')"
proof -
  from ok have body: "payJob_body (profile_id req_profile) jid now d = Inr (j', d')"
    unfolding payJob_def transaction_def by (auto split: if_splits sum.splits prod.splits)
  from payJob_body_Inr [OF body] obtain j c cl q where
    f: "findUnpaidJobToPay d (profile_id req_profile) jid = Some (j, c, cl)"
    and enough: "price j \<le> balance cl"
    and q: "q \<in> set (Profiles d)" "profile_id q = ContractorId c"
    and d': "d' = paid_state j c now d"
    and reload: "Job_reload j d' = Some j'"
    by blast
  note F = findUnpaidJobToPay_Some [OF f]
  from F roles have ne: "ClientId c \<noteq> ContractorId c"
    by (auto simp: list_all_iff)
  have gcl: "getProfile d (ClientId c) = Some cl"
    using find_distinct_key [OF pk, of cl] F by (simp add: getProfile_def)
  have gq: "getProfile d (ContractorId c) = Some q"
    using find_distinct_key [OF pk, of q] q by (simp add: getProfile_def)
  have b1: "balance_of d' (ClientId c) = Some (balance cl - price j)"
    using gcl enough ne F by (simp add: balance_of_def d' getProfile_paid_state)
  have b2: "balance_of d' (ContractorId c) = Some (balance q + price j)"
    using gq ne q by (simp add: balance_of_def d' getProfile_paid_state)
  have "find (\<lambda>x. job_id x = job_id j) (Jobs d) = Some j"
    using find_distinct_key [OF jk, of j] F by simp
  then have j': "j' = j\<lparr>paid := True, paymentDate := Some now\<rparr>"
    using reload unfolding Job_reload_def d' Jobs_paid_state
    by (subst (asm) find_map_key [where key = job_id]) auto
  have b0: "balance_of d (ClientId c) = Some (balance cl)"
    "balance_of d (ContractorId c) = Some (balance q)"
    using gcl gq by (simp_all add: balance_of_def)
  show ?thesis
    using F b0 b1 b2 j' reload payJob_again_NotFound [OF ok, of now']
    by (intro exI [of _ j] exI [of _ c] exI [of _ "balance cl"] exI [of _ "balance q"]) simp
qed

theorem payJob_success_witness:
  "payJob example_db client_X 3 99 = (Inr (job_3\<lparr>paid := True, paymentDate := Some 99\<rparr>), paid_db) \<and>
   distinct (map profile_id (Profiles example_db)) \<and>
   distinct (map job_id (Jobs example_db)) \<and>
   list_all (\<lambda>c. ClientId c \<noteq> ContractorId c) (Contracts example_db) \<and>
   balance_of example_db 1 = Some 500 \<and> balance_of paid_db 1 = Some 400 \<and>
   balance_of example_db 3 = Some 0 \<and> balance_of paid_db 3 = Some 100 \<and>
   payJob paid_db client_X 3 100 = (Inl NotFound, paid_db)"
proof -
  have ok: "payJob example_db client_X 3 99 =
      (Inr (job_3\<lparr>paid := True, paymentDate := Some 99\<rparr>), paid_db)"
    by (simp add: query_defs example_defs paid_db_def)
  have pk: "distinct (map profile_id (Profiles example_db))"
    and jk: "distinct (map job_id (Jobs example_db))"
    and roles: "list_all (\<lambda>c. ClientId c \<noteq> ContractorId c) (Contracts example_db)"
    by (simp_all add: example_defs)
  from payJob_success [OF ok pk jk roles, of 100] obtain j c clientBalance contractorBalance where
    j: "j \<in> set (Jobs example_db)" "job_id j = 3" "\<not> paid j"
    and c: "c \<in> set (Contracts example_db)" "contract_id c = ContractId j"
    and before: "balance_of example_db (ClientId c) = Some clientBalance"
      "balance_of example_db (ContractorId c) = Some contractorBalance"
    and after: "balance_of paid_db (ClientId c) = Some (clientBalance - price j)"
      "balance_of paid_db (ContractorId c) = Some (contractorBalance + price j)"
    and again: "payJob paid_db client_X 3 100 = (Inl NotFound, paid_db)"
    by blast
  from j have j3: "j = job_3" by (auto simp: example_defs)
  with c have c1: "c = contract_1" by (auto simp: example_defs)
  have ids: "ClientId contract_1 = 1" "ContractorId contract_1 = 3" "price job_3 = 100"
    by (simp_all add: example_defs)
  have b: "balance_of example_db 1 = Some 500" "balance_of example_db 3 = Some 0"
    by (simp_all add: balance_of_def getProfile_def example_defs)
  from before after b have "balance_of paid_db 1 = Some 400" "balance_of paid_db 3 = Some 100"
    unfolding j3 c1 ids by simp_all
  with ok pk jk roles b again show ?thesis by simp
qed

text \<open>
  Claim C3. A call to pay a job that fails leaves the state as it was, and the error tells
  the step: \<open>Forbidden\<close> for a caller that is not a client; \<open>NotFound\<close> when no job is
  found; \<open>InsufficientFunds\<close> when the balance read is below the price;
  \<open>SettlementInternalError\<close> when the balance suffices and no profile has the contractor's
  id (the client's decrement has then been applied inside the transaction and is rolled
  back). A call that succeeds has found an unpaid job of the caller's contract in progress
  with a balance that covers the price, and commits all three writes: every row of the
  client with a sufficient balance is debited by the price, every row of the contractor is
  credited by the price, the job's rows are marked paid with the payment date, and the
  contracts are untouched; with primary keys and a contractor other than the client, the
  client's balance is the old one minus the price and the contractor's the old one plus
  the price. So no job is left paid without the two balance movements, and no balance
  moves without the job being marked paid.
\<close>

theorem payJob_atomic:
  "(\<forall>e. fst (payJob d p jid now) = Inl e \<longrightarrow>
      snd (payJob d p jid now) = d \<and>
      (e = Forbidden \<and> type p \<noteq> client \<or>
       e = NotFound \<and> type p = client \<and> findUnpaidJobToPay d (profile_id p) jid = None \<or>
       (\<exists>j c cl. type p = client \<and> findUnpaidJobToPay d (profile_id p) jid = Some (j, c, cl) \<and>
          (e = InsufficientFunds \<and> balance cl < price j \<or>
           e = SettlementInternalError \<and> price j \<le> balance cl \<and>
             list_all (\<lambda>q. profile_id q \<noteq> ContractorId c) (Profiles d))))) \<and>
   (\<forall>j'. fst (payJob d p jid now) = Inr j' \<longrightarrow>
      (\<exists>j c cl. type p = client \<and> findUnpaidJobToPay d (profile_id p) jid = Some (j, c, cl) \<and>
         j \<in> set (Jobs d) \<and> job_id j = jid \<and> \<not> paid j \<and>
         c \<in> set (Contracts d) \<and> contract_id c = ContractId j \<and> status c = in_progress \<and>
         ClientId c = profile_id p \<and>
         cl \<in> set (Profiles d) \<and> profile_id cl = ClientId c \<and> price j \<le> balance cl \<and>
         list_ex (\<lambda>q. profile_id q = ContractorId c) (Profiles d) \<and>
         Profiles (snd (payJob d p jid now)) =
           map (\<lambda>x. if profile_id x = ContractorId c then x\<lparr>balance := balance x + price j\<rparr> else x)
             (map (\<lambda>x. if profile_id x = ClientId c \<and> price j \<le> balance x
                         then x\<lparr>balance := balance x - price j\<rparr> else x) (Profiles d)) \<and>
         Jobs (snd (payJob d p jid now)) =
           map (\<lambda>x. if job_id x = jid then x\<lparr>paid := True, paymentDate := Some now\<rparr> else x) (Jobs d) \<and>
         Contracts (snd (payJob d p jid now)) = Contracts d \<and>
         job_id j' = jid \<and> paid j' \<and> paymentDate j' = Some now \<and>
         (distinct (map profile_id (Profiles d)) \<and> ClientId c \<noteq> ContractorId c \<longrightarrow>
            balance_of d (ClientId c) = Some (balance cl) \<and>
            balance_of (snd (payJob d p jid now)) (ClientId c) = Some (balance cl - price j) \<and>
            (\<exists>b. balance_of d (ContractorId c) = Some b \<and>
                 balance_of (snd (payJob d p jid now)) (ContractorId c) = Some (b + price j)))))"
proof (rule conjI; intro allI impI)
  fix e
  assume a: "fst (payJob d p jid now) = Inl e"
  then have eq: "payJob d p jid now = (Inl e, snd (payJob d p jid now))"
    by (metis prod.collapse)
  then have same: "snd (payJob d p jid now) = d" by (rule payJob_Inl)
  have kind: "e = Forbidden \<and> type p \<noteq> client \<or>
       e = NotFound \<and> type p = client \<and> findUnpaidJobToPay d (profile_id p) jid = None \<or>
       (\<exists>j c cl. type p = client \<and> findUnpaidJobToPay d (profile_id p) jid = Some (j, c, cl) \<and>
          (e = InsufficientFunds \<and> balance cl < price j \<or>
           e = SettlementInternalError \<and> price j \<le> balance cl \<and>
             list_all (\<lambda>q. profile_id q \<noteq> ContractorId c) (Profiles d)))"
  proof (cases "type p = client")
    case False
    with a show ?thesis by (simp add: payJob_def)
  next
    case True
    with a have "payJob_body (profile_id p) jid now d = Inl e"
      unfolding payJob_def transaction_def by (auto split: sum.splits prod.splits)
    from payJob_body_Inl [OF this] True show ?thesis by blast
  qed
  from same kind show "snd (payJob d p jid now) = d \<and>
      (e = Forbidden \<and> type p \<noteq> client \<or>
       e = NotFound \<and> type p = client \<and> findUnpaidJobToPay d (profile_id p) jid = None \<or>
       (\<exists>j c cl. type p = client \<and> findUnpaidJobToPay d (profile_id p) jid = Some (j, c, cl) \<and>
          (e = InsufficientFunds \<and> balance cl < price j \<or>
           e = SettlementInternalError \<and> price j \<le> balance cl \<and>
             list_all (\<lambda>q. profile_id q \<noteq> ContractorId c) (Profiles d))))"
    by (rule conjI)
next
  fix j'
  assume a: "fst (payJob d p jid now) = Inr j'"
  let ?d' = "snd (payJob d p jid now)"
  from a have eq: "payJob d p jid now = (Inr j', ?d')"
    by (metis prod.collapse)
  then have cl: "type p = client"
    and body: "payJob_body (profile_id p) jid now d = Inr (j', ?d')"
    unfolding payJob_def transaction_def by (auto split: if_splits sum.splits prod.splits)
  from payJob_body_Inr [OF body] obtain j c cl q where
    f: "findUnpaidJobToPay d (profile_id p) jid = Some (j, c, cl)"
    and enough: "price j \<le> balance cl"
    and q: "q \<in> set (Profiles d)" "profile_id q = ContractorId c"
    and d': "?d' = paid_state j c now d"
    and reload: "Job_reload j ?d' = Some j'"
    by blast
  note F = findUnpaidJobToPay_Some [OF f]
  from F have jid: "job_id j = jid" by simp
  from F have F1: "j \<in> set (Jobs d)" and F2: "\<not> paid j" and F3: "c \<in> set (Contracts d)"
    and F4: "contract_id c = ContractId j" and F5: "status c = in_progress"
    and F6: "ClientId c = profile_id p" and F7: "cl \<in> set (Profiles d)"
    and F8: "profile_id cl = ClientId c"
    by simp_all
  have ex: "list_ex (\<lambda>q. profile_id q = ContractorId c) (Profiles d)"
    unfolding list_ex_iff using q by blast
  have P: "Profiles ?d' =
           map (\<lambda>x. if profile_id x = ContractorId c then x\<lparr>balance := balance x + price j\<rparr> else x)
             (map (\<lambda>x. if profile_id x = ClientId c \<and> price j \<le> balance x
                         then x\<lparr>balance := balance x - price j\<rparr> else x) (Profiles d))"
    unfolding d' by (rule Profiles_paid_state)
  have J: "Jobs ?d' =
           map (\<lambda>x. if job_id x = jid then x\<lparr>paid := True, paymentDate := Some now\<rparr> else x) (Jobs d)"
    unfolding d' Jobs_paid_state jid ..
  have C: "Contracts ?d' = Contracts d"
    unfolding d' by (rule Contracts_paid_state)
  from reload have mem: "j' \<in> set (Jobs ?d')" and "job_id j' = job_id j"
    by (auto simp: Job_reload_def find_Some_iff)
  then have j'id: "job_id j' = jid" using jid by simp
  from mem obtain x where x: "x \<in> set (Jobs d)"
    and j'x: "j' = (if job_id x = jid then x\<lparr>paid := True, paymentDate := Some now\<rparr> else x)"
    unfolding J by auto
  from j'x j'id have "job_id x = jid" by (simp split: if_splits)
  with j'x have j'paid: "paid j'" and j'date: "paymentDate j' = Some now" by simp_all
  have bal: "distinct (map profile_id (Profiles d)) \<and> ClientId c \<noteq> ContractorId c \<longrightarrow>
            balance_of d (ClientId c) = Some (balance cl) \<and>
            balance_of ?d' (ClientId c) = Some (balance cl - price j) \<and>
            (\<exists>b. balance_of d (ContractorId c) = Some b \<and>
                 balance_of ?d' (ContractorId c) = Some (b + price j))"
  proof
    assume a: "distinct (map profile_id (Profiles d)) \<and> ClientId c \<noteq> ContractorId c"
    then have pk: "distinct (map profile_id (Profiles d))" and ne: "ClientId c \<noteq> ContractorId c"
      by simp_all
    note B = paid_state_balance_of [OF pk F7 F8 enough q ne, of now]
    from B have "balance_of d (ClientId c) = Some (balance cl)" by (rule conjunct1)
    moreover from B have "balance_of ?d' (ClientId c) = Some (balance cl - price j)"
      unfolding d' by blast
    moreover from B have "\<exists>b. balance_of d (ContractorId c) = Some b \<and>
                 balance_of ?d' (ContractorId c) = Some (b + price j)"
      unfolding d' by blast
    ultimately show "balance_of d (ClientId c) = Some (balance cl) \<and>
            balance_of ?d' (ClientId c) = Some (balance cl - price j) \<and>
            (\<exists>b. balance_of d (ContractorId c) = Some b \<and>
                 balance_of ?d' (ContractorId c) = Some (b + price j))"
      by (intro conjI)
  qed
  show "\<exists>j c cl. type p = client \<and> findUnpaidJobToPay d (profile_id p) jid = Some (j, c, cl) \<and>
         j \<in> set (Jobs d) \<and> job_id j = jid \<and> \<not> paid j \<and>
         c \<in> set (Contracts d) \<and> contract_id c = ContractId j \<and> status c = in_progress \<and>
         ClientId c = profile_id p \<and>
         cl \<in> set (Profiles d) \<and> profile_id cl = ClientId c \<and> price j \<le> balance cl \<and>
         list_ex (\<lambda>q. profile_id q = ContractorId c) (Profiles d) \<and>
         Profiles ?d' =
           map (\<lambda>x. if profile_id x = ContractorId c then x\<lparr>balance := balance x + price j\<rparr> else x)
             (map (\<lambda>x. if profile_id x = ClientId c \<and> price j \<le> balance x
                         then x\<lparr>balance := balance x - price j\<rparr> else x) (Profiles d)) \<and>
         Jobs ?d' =
           map (\<lambda>x. if job_id x = jid then x\<lparr>paid := True, paymentDate := Some now\<rparr> else x) (Jobs d) \<and>
         Contracts ?d' = Contracts d \<and>
         job_id j' = jid \<and> paid j' \<and> paymentDate j' = Some now \<and>
         (distinct (map profile_id (Profiles d)) \<and> ClientId c \<noteq> ContractorId c \<longrightarrow>
            balance_of d (ClientId c) = Some (balance cl) \<and>
            balance_of ?d' (ClientId c) = Some (balance cl - price j) \<and>
            (\<exists>b. balance_of d (ContractorId c) = Some b \<and>
                 balance_of ?d' (ContractorId c) = Some (b + price j)))"
    by (intro exI [of _ j] exI [of _ c] exI [of _ cl] conjI)
      (rule cl f F1 jid F2 F3 F4 F5 F6 F7 F8 enough ex P J C j'id j'paid j'date bal)+
qed

theorem payJob_atomic_witness:
  "fst (payJob orphan_db client_X 3 99) = Inl SettlementInternalError \<and>
   fst (Profile_decrement 100 (\<lambda>p. profile_id p = 1 \<and> 100 \<le> balance p) orphan_db) \<noteq> orphan_db \<and>
   snd (payJob orphan_db client_X 3 99) = orphan_db \<and>
   fst (payJob example_db client_Y 3 99) = Inl NotFound \<and>
   snd (payJob example_db client_Y 3 99) = example_db \<and>
   fst (payJob example_db client_X 3 99) = Inr (job_3\<lparr>paid := True, paymentDate := Some 99\<rparr>) \<and>
   Profiles (snd (payJob example_db client_X 3 99)) =
     [client_X\<lparr>balance := 400\<rparr>, client_Y, contractor_A\<lparr>balance := 100\<rparr>, contractor_B] \<and>
   Jobs (snd (payJob example_db client_X 3 99)) =
     [job_1, job_2, job_3\<lparr>paid := True, paymentDate := Some 99\<rparr>] \<and>
   balance_of example_db 1 = Some 500 \<and>
   balance_of (snd (payJob example_db client_X 3 99)) 1 = Some 400 \<and>
   balance_of example_db 3 = Some 0 \<and>
   balance_of (snd (payJob example_db client_X 3 99)) 3 = Some 100"
proof -
  have f1: "fst (payJob orphan_db client_X 3 99) = Inl SettlementInternalError"
    by (simp add: query_defs example_defs)
  have f2: "fst (payJob example_db client_Y 3 99) = Inl NotFound"
    by (simp add: query_defs example_defs)
  have f3: "fst (payJob example_db client_X 3 99) = Inr (job_3\<lparr>paid := True, paymentDate := Some 99\<rparr>)"
    by (simp add: query_defs example_defs)
  have moved: "fst (Profile_decrement 100 (\<lambda>p. profile_id p = 1 \<and> 100 \<le> balance p) orphan_db) \<noteq> orphan_db"
    by (simp add: query_defs example_defs)
  have found: "findUnpaidJobToPay example_db (profile_id client_X) 3 = Some (job_3, contract_1, client_X)"
    by (simp add: query_defs example_defs)
  have pk: "distinct (map profile_id (Profiles example_db)) \<and> ClientId contract_1 \<noteq> ContractorId contract_1"
    by (simp add: example_defs)
  have vals: "ClientId contract_1 = 1" "ContractorId contract_1 = 3" "price job_3 = 100"
    "balance client_X = 500" "balance_of example_db 3 = Some 0"
    by (simp_all add: balance_of_def getProfile_def example_defs)
  from payJob_atomic [of orphan_db client_X 3 99] f1
  have r1: "snd (payJob orphan_db client_X 3 99) = orphan_db" by blast
  from payJob_atomic [of example_db client_Y 3 99] f2
  have r2: "snd (payJob example_db client_Y 3 99) = example_db" by blast
  from payJob_atomic [of example_db client_X 3 99] f3 obtain j c cl where
    f: "findUnpaidJobToPay example_db (profile_id client_X) 3 = Some (j, c, cl)"
    and P: "Profiles (snd (payJob example_db client_X 3 99)) =
           map (\<lambda>x. if profile_id x = ContractorId c then x\<lparr>balance := balance x + price j\<rparr> else x)
             (map (\<lambda>x. if profile_id x = ClientId c \<and> price j \<le> balance x
                         then x\<lparr>balance := balance x - price j\<rparr> else x) (Profiles example_db))"
    and J: "Jobs (snd (payJob example_db client_X 3 99)) =
           map (\<lambda>x. if job_id x = 3 then x\<lparr>paid := True, paymentDate := Some 99\<rparr> else x) (Jobs example_db)"
    and B: "distinct (map profile_id (Profiles example_db)) \<and> ClientId c \<noteq> ContractorId c \<longrightarrow>
            balance_of example_db (ClientId c) = Some (balance cl) \<and>
            balance_of (snd (payJob example_db client_X 3 99)) (ClientId c) = Some (balance cl - price j) \<and>
            (\<exists>b. balance_of example_db (ContractorId c) = Some b \<and>
                 balance_of (snd (payJob example_db client_X 3 99)) (ContractorId c) = Some (b + price j))"
    by blast
  from f found have jc: "j = job_3" "c = contract_1" "cl = client_X" by simp_all
  from P have P': "Profiles (snd (payJob example_db client_X 3 99)) =
     [client_X\<lparr>balance := 400\<rparr>, client_Y, contractor_A\<lparr>balance := 100\<rparr>, contractor_B]"
    unfolding jc by (simp add: example_defs)
  from J have J': "Jobs (snd (payJob example_db client_X 3 99)) =
     [job_1, job_2, job_3\<lparr>paid := True, paymentDate := Some 99\<rparr>]"
    by (simp add: example_defs)
  from B pk vals have B': "balance_of example_db 1 = Some 500"
    "balance_of (snd (payJob example_db client_X 3 99)) 1 = Some 400"
    "balance_of (snd (payJob example_db client_X 3 99)) 3 = Some 100"
    unfolding jc by auto
  from f1 f2 f3 moved r1 r2 P' J' B' vals(5) show ?thesis by (intro conjI)
qed

text \<open>
  Claim C5. A caller whose role is not client is answered with \<open>Forbidden\<close>. For a client
  (resolved from the state by the identity middleware) the call fails with \<open>NotFound\<close>
  exactly when there is no job with the given id that is unpaid and belongs to a contract
  in progress whose client is the caller. In particular, after a successful payment a
  second call for the same job fails with \<open>NotFound\<close>.
\<close>

theorem payJob_Forbidden_NotFound:
  "(type req_profile \<noteq> client \<longrightarrow> payJob d req_profile jid now = (Inl Forbidden, d)) \<and>
   (type req_profile = client \<and> getProfile d (profile_id req_profile) = Some req_profile \<longrightarrow>
      (payJob d req_profile jid now = (Inl NotFound, d)) = (\<not> payable d (profile_id req_profile) jid)) \<and>
   (\<forall>j' d' now'. payJob d req_profile jid now = (Inr j', d') \<longrightarrow>
      payJob d' req_profile jid now' = (Inl NotFound, d'))"
proof (intro conjI impI allI)
  assume "type req_profile \<noteq> client"
  then show "payJob d req_profile jid now = (Inl Forbidden, d)" by (simp add: payJob_def)
next
  assume a: "type req_profile = client \<and> getProfile d (profile_id req_profile) = Some req_profile"
  then have mem: "req_profile \<in> set (Profiles d)"
    by (auto simp: getProfile_def find_Some_iff)
  have "(findUnpaidJobToPay d (profile_id req_profile) jid = None) = (\<not> payable d (profile_id req_profile) jid)"
    unfolding findUnpaidJobToPay_None payable_def list_ex_iff
    using mem by (auto simp: in_Job_Contract_Client)
  moreover have "(payJob d req_profile jid now = (Inl NotFound, d)) =
      (findUnpaidJobToPay d (profile_id req_profile) jid = None)"
    using a unfolding payJob_def transaction_def payJob_body_def
    by (auto simp: Let_def split: option.splits prod.splits if_splits sum.splits)
  ultimately show "(payJob d req_profile jid now = (Inl NotFound, d)) = (\<not> payable d (profile_id req_profile) jid)"
    by simp
next
  fix j' d' now'
  assume "payJob d req_profile jid now = (Inr j', d')"
  then show "payJob d' req_profile jid now' = (Inl NotFound, d')"
    by (rule payJob_again_NotFound)
qed

theorem payJob_Forbidden_NotFound_witness:
  "type contractor_A \<noteq> client \<and>
   payJob example_db contractor_A 3 99 = (Inl Forbidden, example_db) \<and>
   type client_X = client \<and> getProfile example_db (profile_id client_X) = Some client_X \<and>
   \<not> payable example_db (profile_id client_X) 1 \<and>
   payJob example_db client_X 1 99 = (Inl NotFound, example_db) \<and>
   payable example_db (profile_id client_X) 3 \<and>
   payJob example_db client_X 3 99 \<noteq> (Inl NotFound, example_db) \<and>
   payJob paid_db client_X 3 100 = (Inl NotFound, paid_db)"
proof -
  have h1: "type contractor_A \<noteq> client" by (simp add: example_defs)
  have h2: "type client_X = client \<and> getProfile example_db (profile_id client_X) = Some client_X"
    by (simp add: getProfile_def example_defs)
  have h3: "\<not> payable example_db (profile_id client_X) 1"
    "payable example_db (profile_id client_X) 3"
    by (simp_all add: payable_def example_defs)
  have ok: "payJob example_db client_X 3 99 =
      (Inr (job_3\<lparr>paid := True, paymentDate := Some 99\<rparr>), paid_db)"
    by (simp add: query_defs example_defs paid_db_def)
  note a = payJob_Forbidden_NotFound [of contractor_A example_db 3 99]
  note b = payJob_Forbidden_NotFound [of client_X example_db 1 99]
  note c = payJob_Forbidden_NotFound [of client_X example_db 3 99]
  from a h1 have 1: "payJob example_db contractor_A 3 99 = (Inl Forbidden, example_db)" by blast
  from b h2 h3 have 2: "payJob example_db client_X 1 99 = (Inl NotFound, example_db)" by blast
  from c h2 h3 have 3: "payJob example_db client_X 3 99 \<noteq> (Inl NotFound, example_db)" by blast
  from c ok have 4: "payJob paid_db client_X 3 100 = (Inl NotFound, paid_db)" by blast
  from h1 h2 h3 1 2 3 4 show ?thesis by simp
qed

subsection \<open>Non-negative balances\<close>

text \<open>
  Claim C2, as amended. From a state in which every balance and every job price is at
  least 0, every sequence of pay and deposit requests whose deposit amounts are at least 0
  leads to a state in which every balance is at least 0. (The handler of deposits accepts
  negative amounts, which lower the balance: see the counterexample, where a deposit of
  -600 takes a balance of 500 to -100.)
\<close>

theorem balances_nonneg_invariant:
  assumes "balances_nonneg d" and "prices_nonneg d" and "list_all nonneg_amount rs"
  shows "balances_nonneg (foldl handle d rs)"
proof -
  from assms have "balances_nonneg (foldl handle d rs) \<and> prices_nonneg (foldl handle d rs)"
  proof (induction rs arbitrary: d)
    case Nil
    then show ?case by simp
  next
    case (Cons r rs)
    from Cons.prems have "balances_nonneg (handle d r) \<and> prices_nonneg (handle d r)"
      using handle_preserves by simp
    with Cons.IH [of "handle d r"] Cons.prems show ?case by simp
  qed
  then show ?thesis ..
qed

theorem balances_nonneg_invariant_witness:
  "balances_nonneg example_db \<and> prices_nonneg example_db \<and>
   list_all nonneg_amount [PayJob 1 3 99, Deposit 2 0, PayJob 2 3 100] \<and>
   balances_nonneg (foldl handle example_db [PayJob 1 3 99, Deposit 2 0, PayJob 2 3 100])"
proof -
  have h: "balances_nonneg example_db" "prices_nonneg example_db"
    "list_all nonneg_amount [PayJob 1 3 99, Deposit 2 0, PayJob 2 3 100]"
    by (simp_all add: balances_nonneg_def prices_nonneg_def example_defs)
  from balances_nonneg_invariant [OF h] h show ?thesis by simp
qed

theorem balances_nonneg_counterexample:
  "balances_nonneg example_db \<and> \<not> balances_nonneg (foldl handle example_db [Deposit 1 (-600)])"
  by (simp add: balances_nonneg_def handle_def query_defs example_defs)

subsection \<open>Deposits\<close>

text \<open>
  Claim C4. For a client (resolved from the state by the identity middleware), a deposit
  succeeds exactly when the amount is at most a quarter of the caller's exposure. An amount
  above a quarter of the exposure is answered with \<open>DepositLimitExceeded\<close> and changes
  nothing; with exposure 0 every positive amount is rejected; on success the caller's
  balance has grown by exactly the amount. In the example the exposure is 100: 25 is
  accepted, 25.01 is rejected.
\<close>

theorem deposit_limit:
  assumes "distinct (map contract_id (Contracts d))"
    and "type p = client" and "getProfile d (profile_id p) = Some p"
  shows "((\<exists>p'. fst (deposit d p amount) = Inr p') = (amount \<le> exposure d (profile_id p) / 4)) \<and>
         (exposure d (profile_id p) / 4 < amount \<longrightarrow>
            deposit d p amount = (Inl DepositLimitExceeded, d)) \<and>
         (exposure d (profile_id p) = 0 \<and> 0 < amount \<longrightarrow>
            deposit d p amount = (Inl DepositLimitExceeded, d)) \<and>
         (amount \<le> exposure d (profile_id p) / 4 \<longrightarrow>
            fst (deposit d p amount) = Inr (p\<lparr>balance := balance p + amount\<rparr>) \<and>
            balance_of (snd (deposit d p amount)) (profile_id p) = Some (balance p + amount))"
proof (cases "amount \<le> exposure d (profile_id p) / 4")
  case True
  from deposit_accept [OF assms True] show ?thesis
    using True assms(3) by (auto simp: balance_of_def getProfile_increment)
next
  case False
  then have "exposure d (profile_id p) / 4 < amount" by simp
  from deposit_reject [OF assms(1,2) this] False show ?thesis by auto
qed

theorem deposit_limit_witness:
  "distinct (map contract_id (Contracts example_db)) \<and>
   type client_X = client \<and> getProfile example_db (profile_id client_X) = Some client_X \<and>
   exposure example_db (profile_id client_X) = 100 \<and>
   fst (deposit example_db client_X 25) = Inr (client_X\<lparr>balance := 525\<rparr>) \<and>
   balance_of (snd (deposit example_db client_X 25)) (profile_id client_X) = Some 525 \<and>
   deposit example_db client_X (2501 / 100) = (Inl DepositLimitExceeded, example_db) \<and>
   exposure example_db (profile_id client_Y) = 0 \<and>
   deposit example_db client_Y (1 / 100) = (Inl DepositLimitExceeded, example_db)"
proof -
  have hX: "type client_X = client" "getProfile example_db (profile_id client_X) = Some client_X"
    and hY: "type client_Y = client" "getProfile example_db (profile_id client_Y) = Some client_Y"
    by (simp_all add: getProfile_def example_defs)
  have eX: "exposure example_db (profile_id client_X) = 100"
    and eY: "exposure example_db (profile_id client_Y) = 0"
    by (simp_all add: exposure_def example_defs)
  have ck: "distinct (map contract_id (Contracts example_db))" by (simp add: example_defs)
  have bX: "balance client_X = 500" by (simp add: example_defs)
  from deposit_limit [OF ck hX, of 25] eX bX
  have 1: "fst (deposit example_db client_X 25) = Inr (client_X\<lparr>balance := 525\<rparr>)"
    "balance_of (snd (deposit example_db client_X 25)) (profile_id client_X) = Some 525"
    by simp_all
  from deposit_limit [OF ck hX, of "2501 / 100"] eX
  have 2: "deposit example_db client_X (2501 / 100) = (Inl DepositLimitExceeded, example_db)"
    by simp
  from deposit_limit [OF ck hY, of "1 / 100"] eY
  have 3: "deposit example_db client_Y (1 / 100) = (Inl DepositLimitExceeded, example_db)"
    by simp
  from ck hX eX eY 1 2 3 show ?thesis by simp
qed

text \<open>
  Claim C6, as amended. A caller whose role is not client is answered with \<open>Forbidden\<close> and
  nothing changes. For a client the amount is not validated: an amount that is zero or
  negative is accepted whenever the exposure is at least 0, and it is added to the balance
  (zero leaves the balance as it is, a negative amount lowers it). The counterexample is the
  deposit of -600, which succeeds and takes the balance from 500 to -100.
\<close>

theorem deposit_no_validation:
  "(type p \<noteq> client \<longrightarrow> deposit d p amount = (Inl Forbidden, d)) \<and>
   (distinct (map contract_id (Contracts d)) \<and>
    type p = client \<and> getProfile d (profile_id p) = Some p \<and> amount \<le> 0 \<and>
    0 \<le> exposure d (profile_id p) \<longrightarrow>
      fst (deposit d p amount) = Inr (p\<lparr>balance := balance p + amount\<rparr>) \<and>
      balance_of (snd (deposit d p amount)) (profile_id p) = Some (balance p + amount))"
proof (intro conjI impI)
  assume "type p \<noteq> client"
  then show "deposit d p amount = (Inl Forbidden, d)" by (simp add: deposit_def)
next
  assume a: "distinct (map contract_id (Contracts d)) \<and>
    type p = client \<and> getProfile d (profile_id p) = Some p \<and> amount \<le> 0 \<and>
    0 \<le> exposure d (profile_id p)"
  then have le: "amount \<le> exposure d (profile_id p) / 4" by simp
  from a deposit_accept [of d p amount, OF _ _ _ le]
  show "fst (deposit d p amount) = Inr (p\<lparr>balance := balance p + amount\<rparr>)"
    and "balance_of (snd (deposit d p amount)) (profile_id p) = Some (balance p + amount)"
    by (simp_all add: balance_of_def getProfile_increment)
qed

theorem deposit_no_validation_witness:
  "type contractor_A \<noteq> client \<and>
   deposit example_db contractor_A 10 = (Inl Forbidden, example_db) \<and>
   distinct (map contract_id (Contracts example_db)) \<and>
   type client_X = client \<and> getProfile example_db (profile_id client_X) = Some client_X \<and>
   0 \<le> exposure example_db (profile_id client_X) \<and>
   fst (deposit example_db client_X 0) = Inr (client_X\<lparr>balance := 500\<rparr>) \<and>
   balance_of (snd (deposit example_db client_X 0)) (profile_id client_X) = Some 500"
proof -
  have h1: "type contractor_A \<noteq> client" by (simp add: example_defs)
  have hX: "distinct (map contract_id (Contracts example_db)) \<and>
      type client_X = client \<and> getProfile example_db (profile_id client_X) = Some client_X"
    by (simp add: getProfile_def example_defs)
  have eX: "0 \<le> exposure example_db (profile_id client_X)"
    by (simp add: exposure_def example_defs)
  have bX: "balance client_X = 500" by (simp add: example_defs)
  from deposit_no_validation [of contractor_A example_db 10] h1
  have 1: "deposit example_db contractor_A 10 = (Inl Forbidden, example_db)" by blast
  from deposit_no_validation [of client_X example_db 0] hX eX bX
  have 2: "fst (deposit example_db client_X 0) = Inr (client_X\<lparr>balance := 500\<rparr>)"
    "balance_of (snd (deposit example_db client_X 0)) (profile_id client_X) = Some 500"
    by simp_all
  from h1 hX eX 1 2 show ?thesis by simp
qed

theorem deposit_validation_counterexample:
  "type client_X = client \<and> getProfile example_db (profile_id client_X) = Some client_X \<and>
   fst (deposit example_db client_X (-600)) = Inr (client_X\<lparr>balance := -100\<rparr>) \<and>
   balance_of example_db (profile_id client_X) = Some 500 \<and>
   balance_of (snd (deposit example_db client_X (-600))) (profile_id client_X) = Some (-100)"
  by (simp add: balance_of_def query_defs example_defs)

text \<open>
  Claim C10. For a client and a negative amount, the deposit succeeds whenever the caller's
  exposure is at least 0, and the balance is incremented by the negative amount: it
  decreases. The handler has no lower bound on the amount.
\<close>

theorem deposit_negative_amount:
  assumes "distinct (map contract_id (Contracts d))"
    and "type p = client" and "getProfile d (profile_id p) = Some p"
    and "amount < 0" and "0 \<le> exposure d (profile_id p)"
  shows "fst (deposit d p amount) = Inr (p\<lparr>balance := balance p + amount\<rparr>) \<and>
         balance_of (snd (deposit d p amount)) (profile_id p) = Some (balance p + amount) \<and>
         balance p + amount < balance p"
proof -
  from assms(4,5) have le: "amount \<le> exposure d (profile_id p) / 4" by simp
  from deposit_accept [OF assms(1,2,3) le] assms(3,4) show ?thesis
    by (simp add: balance_of_def getProfile_increment)
qed

theorem deposit_negative_amount_witness:
  "distinct (map contract_id (Contracts example_db)) \<and>
   type client_X = client \<and> getProfile example_db (profile_id client_X) = Some client_X \<and>
   (-100 :: rat) < 0 \<and> 0 \<le> exposure example_db (profile_id client_X) \<and>
   fst (deposit example_db client_X (-100)) = Inr (client_X\<lparr>balance := 400\<rparr>) \<and>
   balance_of (snd (deposit example_db client_X (-100))) (profile_id client_X) = Some 400"
proof -
  have hX: "distinct (map contract_id (Contracts example_db))"
    "type client_X = client" "getProfile example_db (profile_id client_X) = Some client_X"
    by (simp_all add: getProfile_def example_defs)
  have neg: "(-100 :: rat) < 0" by simp
  have eX: "0 \<le> exposure example_db (profile_id client_X)"
    by (simp add: exposure_def example_defs)
  have bX: "balance client_X = 500" by (simp add: example_defs)
  from deposit_negative_amount [OF hX neg eX] bX hX eX show ?thesis by simp
qed

subsection \<open>Aggregation\<close>






text \<open>
  Claim C9, as amended. The best-clients query does not validate its limit (\<open>limit\<close> is the
  integer that \<^verbatim>\<open>parseInt\<close> yields, \<open>None\<close> when the query has no limit): it always answers
  with a list. Limit 0 gives the empty list, a limit \<open>n\<close> that is at least 0 gives at most
  \<open>n\<close> entries, and without a limit there are at most 2. The counterexample is limit 0.
\<close>

theorem best_clients_limit:
  "\<exists>rows. best_clients d start end limit = Inr rows \<and>
      (limit = Some 0 \<longrightarrow> rows = []) \<and>
      (\<forall>n. limit = Some n \<and> 0 \<le> n \<longrightarrow> length rows \<le> nat n) \<and>
      (limit = None \<longrightarrow> length rows \<le> 2)"
  unfolding best_clients_def Let_def
  by (auto simp: LIMIT_def)

theorem best_clients_limit_witness:
  "best_clients example_db None None (Some 0) = Inr [] \<and>
   length (projr (best_clients example_db None None (Some 1))) \<le> 1 \<and>
   length (projr (best_clients example_db None None None)) \<le> 2"
proof -
  from best_clients_limit [of example_db None None "Some 0"]
  have 0: "best_clients example_db None None (Some 0) = Inr []" by auto
  from best_clients_limit [of example_db None None "Some 1"]
  have 1: "length (projr (best_clients example_db None None (Some 1))) \<le> 1" by auto
  from best_clients_limit [of example_db None None None]
  have 2: "length (projr (best_clients example_db None None None)) \<le> 2" by auto
  from 0 1 2 show ?thesis by simp
qed

theorem best_clients_limit_counterexample:
  "best_clients example_db None None (Some 0) = Inr []"
  by (simp add: aggregate_defs query_defs example_defs)

end
